theory Spec2Isabelle
  imports Main
begin

section \<open>JavaScript values, field metadata and addresses\<close>

text \<open>
  The values that flow through the address form. \<open>undefined\<close> is the \<open>None\<close> of an
  option type throughout; \<open>null\<close> is a value of its own. A \<open>Date\<close> object is kept as the
  constructor call that made it: \<open>new Date(s)\<close> or \<open>new Date(Number(y), Number(m)-1, Number(d))\<close>
  with the three parts of the split string still unconverted (a missing part is
  \<open>undefined\<close>).
\<close>

datatype JSDate =
    DateOfString string
  | DateOfParts "string option" "string option" "string option"

datatype JSValue =
    JString string
  | JNumber int
  | JArray "string list"
  | JDate JSDate
  | JNull

text \<open>
  \<open>Number.prototype.toString\<close> and \<open>Date.prototype.toString\<close> belong to the host; the
  second depends on the time zone. Both are taken as they come.
\<close>

record JSRuntime =
  Number_toString :: "int \<Rightarrow> string"
  Date_toString :: "JSDate \<Rightarrow> string"

text \<open>\<open>Array.prototype.toString\<close> joins the elements with a comma.\<close>

fun join_comma :: "string list \<Rightarrow> string" where
  "join_comma [] = []"
| "join_comma [x] = x"
| "join_comma (x # y # ys) = x @ '','' @ join_comma (y # ys)"

fun toString :: "JSRuntime \<Rightarrow> JSValue \<Rightarrow> string option" where
  "toString rt (JString s) = Some s"
| "toString rt (JNumber n) = Some (Number_toString rt n)"
| "toString rt (JArray xs) = Some (join_comma xs)"
| "toString rt (JDate d) = Some (Date_toString rt d)"
| "toString rt JNull = None"

text \<open>\<open>String.prototype.split\<close> on a one-character separator.\<close>

fun split :: "char \<Rightarrow> string \<Rightarrow> string list" where
  "split c [] = [[]]"
| "split c (x # xs) =
     (if x = c then [] # split c xs
      else (case split c xs of [] \<Rightarrow> [[x]] | p # ps \<Rightarrow> (x # p) # ps))"

text \<open>Reading an array element that may be missing, as destructuring does.\<close>

fun nth_opt :: "'a list \<Rightarrow> nat \<Rightarrow> 'a option" where
  "nth_opt [] n = None"
| "nth_opt (x # xs) 0 = Some x"
| "nth_opt (x # xs) (Suc n) = nth_opt xs n"

text \<open>
  \<open>FormField\<close> of the checkout SDK: the four properties that \<open>mapAddressToFormValues\<close>
  destructures (\<open>default\<close> is bound to \<open>defaultValue\<close> there), and \<open>type\<close>, which the
  shipping form reads.
\<close>

record FormField =
  name :: string
  custom :: bool
  fieldType :: "string option"
  defaultValue :: "string option"
  inputType :: "string option"

text \<open>
  Modelled from the spec: the enumeration \<open>DynamicFormFieldType\<close> is imported from the
  form module. Its members \<open>checkbox\<close>, \<open>date\<close> and \<open>dropdown\<close>, the three that the
  mapper compares with, carry their names as values (the shipping form compares
  \<open>fieldType\<close> with the literal \<open>'checkbox'\<close>).
\<close>

definition DynamicFormFieldType_checkbox :: string where
  "DynamicFormFieldType_checkbox = ''checkbox''"

definition DynamicFormFieldType_date :: string where
  "DynamicFormFieldType_date = ''date''"

definition DynamicFormFieldType_dropdown :: string where
  "DynamicFormFieldType_dropdown = ''dropdown''"

text \<open>Truthiness of an optional string: defined and not empty.\<close>

fun truthy :: "string option \<Rightarrow> bool" where
  "truthy None = False"
| "truthy (Some s) = (s \<noteq> [])"

text \<open>
  \<open>Address\<close>: the own properties other than \<open>customFields\<close> and \<open>shouldSaveAddress\<close> as
  an association list from property name to value, the \<open>customFields\<close> array of
  \<open>{fieldId, fieldValue}\<close> pairs (\<open>None\<close> when the property is not an array), and the
  optional \<open>shouldSaveAddress\<close>.
\<close>

record Address =
  properties :: "(string \<times> JSValue) list"
  customFields :: "(string \<times> JSValue) list option"
  shouldSaveAddress :: "bool option"

text \<open>
  \<open>AddressFormValues\<close>: the object that the reducer fills. Its top-level properties
  are kept apart from the nested \<open>customFields\<close> object and from \<open>shouldSaveAddress\<close>;
  the guard \<open>isSystemAddressFieldName\<close> keeps a field from writing to either of the two
  names.
\<close>

record AddressFormValues =
  fieldValues :: "string \<rightharpoonup> JSValue"
  customFieldValues :: "(string \<rightharpoonup> JSValue) option"
  shouldSaveAddressValue :: "bool option"

section \<open>mapAddressToFormValues\<close>

definition isSystemAddressFieldName :: "string \<Rightarrow> bool" where
  "isSystemAddressFieldName fieldName =
     (fieldName \<noteq> ''customFields'' \<and> fieldName \<noteq> ''shouldSaveAddress'')"

definition getDefaultValue :: "string option \<Rightarrow> string option \<Rightarrow> JSValue" where
  "getDefaultValue ft dv =
     (if truthy dv \<and> ft = Some DynamicFormFieldType_date then
        JDate (DateOfString (case dv of Some d \<Rightarrow> d | None \<Rightarrow> []))
      else if ft = Some DynamicFormFieldType_checkbox then JArray []
      else JString (case dv of Some d \<Rightarrow> d | None \<Rightarrow> []))"

text \<open>\<open>getValue\<close> returns \<open>undefined\<close> for a date field whose value is the empty string.\<close>

fun getValue :: "string option \<Rightarrow> JSValue option \<Rightarrow> string option \<Rightarrow> JSValue option" where
  "getValue ft None dv = Some (getDefaultValue ft dv)"
| "getValue ft (Some JNull) dv = Some (getDefaultValue ft dv)"
| "getValue ft (Some (JString s)) dv =
     (if ft = Some DynamicFormFieldType_date then
        (if s \<noteq> [] then
           (let parts = split CHR ''-'' s
            in Some (JDate (DateOfParts (nth_opt parts 0) (nth_opt parts 1) (nth_opt parts 2))))
         else None)
      else Some (JString s))"
| "getValue ft (Some v) dv = Some v"

text \<open>\<open>x?.toString() || ''\<close>: the empty string for \<open>undefined\<close> and for an empty result.\<close>

definition toString_or_empty :: "JSRuntime \<Rightarrow> JSValue option \<Rightarrow> string" where
  "toString_or_empty rt v =
     (case v of
        None \<Rightarrow> []
      | Some x \<Rightarrow> (case toString rt x of None \<Rightarrow> [] | Some s \<Rightarrow> s))"

text \<open>\<open>address && address[name]\<close>.\<close>

definition address_property :: "Address option \<Rightarrow> string \<Rightarrow> JSValue option" where
  "address_property address n =
     (case address of None \<Rightarrow> None | Some a \<Rightarrow> map_of (properties a) n)"

text \<open>The callback of \<open>fields.reduce\<close>.\<close>

definition reduceField ::
  "JSRuntime \<Rightarrow> Address option \<Rightarrow> AddressFormValues \<Rightarrow> FormField \<Rightarrow> AddressFormValues" where
  "reduceField rt address addressFormValues f =
     (if custom f then
        (let cf = (case customFieldValues addressFormValues of
                     None \<Rightarrow> Map.empty
                   | Some m \<Rightarrow> m)
         in addressFormValues\<lparr>customFieldValues := Some (cf(name f \<mapsto>
              (if fieldType f = Some DynamicFormFieldType_checkbox then JArray []
               else if fieldType f = Some DynamicFormFieldType_date then
                 (if truthy (defaultValue f)
                  then getDefaultValue (fieldType f) (defaultValue f)
                  else JString [])
               else if fieldType f = Some DynamicFormFieldType_dropdown \<and> truthy (defaultValue f)
                 then JString (case defaultValue f of Some d \<Rightarrow> d | None \<Rightarrow> [])
               else JString [])))\<rparr>)
      else if isSystemAddressFieldName (name f) then
        addressFormValues\<lparr>fieldValues := (fieldValues addressFormValues)(name f \<mapsto>
          JString (toString_or_empty rt
            (getValue (fieldType f) (address_property address (name f)) (defaultValue f))))\<rparr>
      else addressFormValues)"

definition backfill :: "string \<Rightarrow> (string \<rightharpoonup> JSValue) \<Rightarrow> (string \<rightharpoonup> JSValue)" where
  "backfill k m = (case m k of None \<Rightarrow> m(k \<mapsto> JString []) | Some v \<Rightarrow> m)"

definition mapAddressToFormValues ::
  "JSRuntime \<Rightarrow> FormField list \<Rightarrow> Address option \<Rightarrow> AddressFormValues" where
  "mapAddressToFormValues rt formFields address =
     (let values = foldl (reduceField rt address)
                     \<lparr>fieldValues = Map.empty, customFieldValues = None,
                      shouldSaveAddressValue = None\<rparr> formFields;
          values = values\<lparr>shouldSaveAddressValue :=
                     Some (case address of
                             None \<Rightarrow> True
                           | Some a \<Rightarrow> (case shouldSaveAddress a of None \<Rightarrow> True | Some b \<Rightarrow> b))\<rparr>;
          values = values\<lparr>fieldValues := backfill ''stateOrProvince'' (fieldValues values)\<rparr>;
          values = values\<lparr>fieldValues := backfill ''stateOrProvinceCode'' (fieldValues values)\<rparr>
      in values)"

section \<open>Thrown values and settled promises\<close>

text \<open>
  What a \<open>catch\<close> clause can receive: an instance of \<open>Error\<close>, or any other value.
  \<open>AssignItemInvalidAddressError\<close> and \<open>AssignItemFailedError\<close> are the two error
  classes that the multi-shipping form constructs; the second wraps the error it was
  made from.
\<close>

datatype Error =
    AssignItemInvalidAddressError
  | AssignItemFailedError Error
  | RequestError string

datatype Thrown = ThrownError Error | ThrownValue JSValue

text \<open>The outcome of awaiting a promise.\<close>

datatype 'a Settled = Resolved 'a | Rejected Thrown

section \<open>The debounced function\<close>

text \<open>
  Modelled from the spec: lodash's \<open>debounce\<close> is imported, not part of the repository.
  With the default options (trailing edge only) it is the single-slot cell of the
  design notes: a call stores its arguments over the pending ones and restarts the
  countdown, and the wrapped function runs once, with the arguments stored last, when
  \<open>wait\<close> milliseconds have passed since the last call. Time is a count of
  milliseconds.
\<close>

record 'a Debounced =
  wait :: nat
  lastArgs :: "'a option"
  lastCallTime :: nat

text \<open>Modelled from the spec: \<open>debounce(func, wait)\<close>, with nothing pending.\<close>

definition debounce :: "nat \<Rightarrow> 'a Debounced" where
  "debounce w = \<lparr>wait = w, lastArgs = None, lastCallTime = 0\<rparr>"

text \<open>
  Modelled from the spec: a call of the debounced function at time \<open>now\<close> overwrites
  the pending arguments and resets the countdown.
\<close>

definition debounced_call :: "nat \<Rightarrow> 'a \<Rightarrow> 'a Debounced \<Rightarrow> 'a Debounced" where
  "debounced_call now args d = d\<lparr>lastArgs := Some args, lastCallTime := now\<rparr>"



section \<open>SingleShippingForm\<close>

record SingleShippingFormState =
  isResettingAddress :: bool
  isUpdatingShippingData :: bool
  hasRequestedShippingOptions :: bool

record SingleShippingFormValues =
  billingSameAsShipping :: bool
  shippingAddressValues :: "AddressFormValues option"
  orderComment :: string

text \<open>
  The props that the handlers read, as React and Formik hold them at the moment the
  handler (or its continuation after an \<open>await\<close>) runs. The consignment type
  belongs to the SDK and stays a parameter.
\<close>

record 'c SingleShippingFormProps =
  isLoading :: bool
  isValid :: bool
  consignments :: "'c list"
  shippingAddress :: "Address option"
  formValues :: SingleShippingFormValues

text \<open>
  One mounted form: its React state, the debounced function made in the constructor,
  and the calls it has made to its collaborators, oldest first. \<open>updateAddress\<close> is
  logged with its address and the \<open>include\<close> flag of its options (\<open>None\<close> when called
  without options).
\<close>

record SingleShippingForm =
  state :: SingleShippingFormState
  debouncedUpdateAddress :: "(Address \<times> bool) Debounced"
  updateAddress_calls :: "(Address \<times> bool option) list"
  deleteConsignments_calls :: nat
  setValues_calls :: "SingleShippingFormValues list"
  onUnhandledError_calls :: "Thrown list"

definition SHIPPING_AUTOSAVE_DELAY :: nat where
  "SHIPPING_AUTOSAVE_DELAY = 1700"

text \<open>The constructor: \<open>props.shippingAutosaveDelay ?? SHIPPING_AUTOSAVE_DELAY\<close>.\<close>

definition constructor :: "nat option \<Rightarrow> SingleShippingForm" where
  "constructor shippingAutosaveDelay =
     \<lparr>state = \<lparr>isResettingAddress = False, isUpdatingShippingData = False,
               hasRequestedShippingOptions = False\<rparr>,
      debouncedUpdateAddress =
        debounce (case shippingAutosaveDelay of None \<Rightarrow> SHIPPING_AUTOSAVE_DELAY | Some w \<Rightarrow> w),
      updateAddress_calls = [],
      deleteConsignments_calls = 0,
      setValues_calls = [],
      onUnhandledError_calls = []\<rparr>"


text \<open>
  The rest of the wrapped function, once \<open>updateAddress\<close> has settled: the \<open>try\<close>
  block has no \<open>catch\<close>, so a rejection leaves the function after the \<open>finally\<close>
  block; it is returned beside the form.
\<close>

definition debouncedUpdateAddress_settled ::
  "bool \<Rightarrow> 'd Settled \<Rightarrow> SingleShippingForm \<Rightarrow> SingleShippingForm \<times> Thrown option" where
  "debouncedUpdateAddress_settled includeShippingOptions outcome form =
     (case outcome of
        Resolved d \<Rightarrow>
          (let st = (if includeShippingOptions
                     then (state form)\<lparr>hasRequestedShippingOptions := True\<rparr>
                     else state form)
           in (form\<lparr>state := st\<lparr>isUpdatingShippingData := False\<rparr>\<rparr>, None))
      | Rejected e \<Rightarrow>
          (form\<lparr>state := (state form)\<lparr>isUpdatingShippingData := False\<rparr>\<rparr>, Some e))"

text \<open>
  \<open>updateAddressWithFormData\<close>. \<open>mapAddressFromFormValues\<close> and \<open>isEqualAddress\<close> are
  imported from the address module and are parameters. lodash's \<open>isEqual\<close> on the two
  \<open>customFields\<close> values is structural equality; the first of them is known to be an
  array where it is evaluated.
\<close>

definition updateAddressWithFormData ::
  "(AddressFormValues \<Rightarrow> Address) \<Rightarrow> (Address \<Rightarrow> Address option \<Rightarrow> bool) \<Rightarrow> nat \<Rightarrow> bool \<Rightarrow>
   'c SingleShippingFormProps \<Rightarrow> SingleShippingForm \<Rightarrow> SingleShippingForm" where
  "updateAddressWithFormData mapAddressFromFormValues isEqualAddress now includeShippingOptions
     props form =
     (let addressForm = shippingAddressValues (formValues props);
          updatedShippingAddress = map_option mapAddressFromFormValues addressForm;
          syncedCustomFields =
            (case shippingAddress props of None \<Rightarrow> None | Some a \<Rightarrow> customFields a);
          updatedCustomFields =
            (case updatedShippingAddress of None \<Rightarrow> None | Some a \<Rightarrow> customFields a);
          includeShippingOptions =
            (if syncedCustomFields \<noteq> None
             then syncedCustomFields \<noteq> updatedCustomFields \<or> includeShippingOptions
             else includeShippingOptions)
      in case updatedShippingAddress of
           None \<Rightarrow> form
         | Some updated \<Rightarrow>
             if isEqualAddress updated (shippingAddress props) then form
             else form\<lparr>state := (state form)\<lparr>isUpdatingShippingData := True\<rparr>,
                       debouncedUpdateAddress :=
                         debounced_call now (updated, includeShippingOptions)
                           (debouncedUpdateAddress form)\<rparr>)"

text \<open>
  \<open>handleFieldChange\<close> from the point where it resumes after
  \<open>await new Promise((resolve) => setTimeout(resolve))\<close>, at time \<open>now\<close> and with the
  props of that moment. Before the \<open>await\<close> it only calls Formik's \<open>setFieldValue\<close> for
  the two state fields when the country changed. \<open>SHIPPING_ADDRESS_FIELDS\<close> is
  imported and is a parameter.
\<close>

definition handleFieldChange ::
  "string list \<Rightarrow> (AddressFormValues \<Rightarrow> Address) \<Rightarrow> (Address \<Rightarrow> Address option \<Rightarrow> bool) \<Rightarrow>
   nat \<Rightarrow> string \<Rightarrow> 'c SingleShippingFormProps \<Rightarrow> SingleShippingForm \<Rightarrow> SingleShippingForm" where
  "handleFieldChange SHIPPING_ADDRESS_FIELDS mapAddressFromFormValues isEqualAddress now
     fieldName props form =
     (let isShippingField = (fieldName \<in> set SHIPPING_ADDRESS_FIELDS);
          hasRequested = hasRequestedShippingOptions (state form)
      in if \<not> isValid props then form
         else updateAddressWithFormData mapAddressFromFormValues isEqualAddress now
                (isShippingField \<or> \<not> hasRequested) props form)"


text \<open>
  The reset of the custom fields that the three address-loading paths apply to the
  mapped form values; the branches on \<open>field.type\<close> all assign the empty string.
\<close>

definition resetCustomField :: "(string \<rightharpoonup> JSValue) \<Rightarrow> FormField \<Rightarrow> (string \<rightharpoonup> JSValue)" where
  "resetCustomField m field =
     (if fieldType field = Some ''checkbox'' then m(name field \<mapsto> JArray [])
      else if inputType field = Some ''date'' then m(name field \<mapsto> JString [])
      else if inputType field = Some ''integer'' then m(name field \<mapsto> JString [])
      else m(name field \<mapsto> JString []))"

definition resetCustomFields :: "FormField list \<Rightarrow> AddressFormValues \<Rightarrow> AddressFormValues" where
  "resetCustomFields formFields addressFormValues =
     (case customFieldValues addressFormValues of
        None \<Rightarrow> addressFormValues
      | Some m \<Rightarrow>
          addressFormValues\<lparr>customFieldValues :=
            Some (foldl resetCustomField m (filter custom formFields))\<rparr>)"

text \<open>\<open>address.countryCode\<close>, as the \<open>string | undefined\<close> that \<open>getFields\<close> takes.\<close>

definition countryCode :: "Address \<Rightarrow> string option" where
  "countryCode address =
     (case map_of (properties address) ''countryCode'' of
        Some (JString s) \<Rightarrow> Some s
      | _ \<Rightarrow> None)"

text \<open>
  \<open>handleAddressSelect\<close> up to its \<open>await\<close>: the flag is set and \<open>updateAddress\<close> is
  called without options. \<open>values\<close> is read from the props here, before the \<open>await\<close>.
\<close>

definition handleAddressSelect_begin :: "Address \<Rightarrow> SingleShippingForm \<Rightarrow> SingleShippingForm" where
  "handleAddressSelect_begin address form =
     form\<lparr>state := (state form)\<lparr>isResettingAddress := True\<rparr>,
          updateAddress_calls := updateAddress_calls form @ [(address, None)]\<rparr>"

text \<open>
  The rest of \<open>handleAddressSelect\<close>: \<open>try\<close>, \<open>catch\<close> and \<open>finally\<close>. Formik's
  \<open>setValues\<close> and the error callback are recorded as calls.
\<close>

definition handleAddressSelect_settled ::
  "JSRuntime \<Rightarrow> (string option \<Rightarrow> FormField list) \<Rightarrow> Address \<Rightarrow> SingleShippingFormValues \<Rightarrow>
   'd Settled \<Rightarrow> SingleShippingForm \<Rightarrow> SingleShippingForm" where
  "handleAddressSelect_settled rt getFields address capturedValues outcome form =
     (let form =
        (case outcome of
           Resolved d \<Rightarrow>
             (let addressFormValues =
                    resetCustomFields (getFields (countryCode address))
                      (mapAddressToFormValues rt (getFields (countryCode address)) (Some address))
              in form\<lparr>setValues_calls := setValues_calls form @
                   [capturedValues\<lparr>shippingAddressValues := Some addressFormValues\<rparr>]\<rparr>)
         | Rejected e \<Rightarrow>
             form\<lparr>onUnhandledError_calls := onUnhandledError_calls form @ [e]\<rparr>)
      in form\<lparr>state := (state form)\<lparr>isResettingAddress := False\<rparr>\<rparr>)"

text \<open>\<open>onUseNewAddress\<close>, in the same two parts; \<open>deleteConsignments\<close> resolves to an
  address or to \<open>undefined\<close>.\<close>

definition onUseNewAddress_begin :: "SingleShippingForm \<Rightarrow> SingleShippingForm" where
  "onUseNewAddress_begin form =
     form\<lparr>state := (state form)\<lparr>isResettingAddress := True\<rparr>,
          deleteConsignments_calls := Suc (deleteConsignments_calls form)\<rparr>"

definition onUseNewAddress_settled ::
  "JSRuntime \<Rightarrow> (string option \<Rightarrow> FormField list) \<Rightarrow> SingleShippingFormValues \<Rightarrow>
   Address option Settled \<Rightarrow> SingleShippingForm \<Rightarrow> SingleShippingForm" where
  "onUseNewAddress_settled rt getFields capturedValues outcome form =
     (let form =
        (case outcome of
           Resolved address \<Rightarrow>
             (let cc = (case address of None \<Rightarrow> None | Some a \<Rightarrow> countryCode a);
                  addressFormValues =
                    resetCustomFields (getFields cc)
                      (mapAddressToFormValues rt (getFields cc) address)
              in form\<lparr>setValues_calls := setValues_calls form @
                   [capturedValues\<lparr>shippingAddressValues := Some addressFormValues\<rparr>]\<rparr>)
         | Rejected e \<Rightarrow>
             form\<lparr>onUnhandledError_calls := onUnhandledError_calls form @ [e]\<rparr>)
      in form\<lparr>state := (state form)\<lparr>isResettingAddress := False\<rparr>\<rparr>)"

section \<open>Selection of the validation schema\<close>

text \<open>
  The two members of \<open>PaymentMethodId\<close> that \<open>shouldHaveCustomValidation\<close> lists; the
  enumeration is imported, so their values are a parameter.
\<close>

record PaymentMethodId =
  BraintreeAcceleratedCheckout :: string
  PayPalCommerceAcceleratedCheckout :: string

definition shouldHaveCustomValidation :: "PaymentMethodId \<Rightarrow> string option \<Rightarrow> bool" where
  "shouldHaveCustomValidation ids methodId =
     (let methodIdsWithoutCustomValidation =
            [BraintreeAcceleratedCheckout ids, PayPalCommerceAcceleratedCheckout ids]
      in case methodId of
           None \<Rightarrow> False
         | Some m \<Rightarrow> m \<noteq> [] \<and> m \<notin> set methodIdsWithoutCustomValidation)"

text \<open>
  A yup schema, as far as the form builds one: an object schema with the schemas of
  its properties, a nullable schema, and the schema that
  \<open>getAddressFormFieldsValidationSchema\<close> (imported from the address module) builds
  from a field list.
\<close>

datatype Schema =
    ObjectSchema "(string \<times> Schema) list"
  | Nullable Schema
  | AddressFormFieldsValidationSchema "FormField list"

text \<open>
  \<open>getCustomFormFieldsValidationSchema\<close>: the argument is not used; the result is
  \<open>object({ customFields: object().nullable(true) })\<close>.
\<close>

definition getCustomFormFieldsValidationSchema :: "FormField list \<Rightarrow> Schema" where
  "getCustomFormFieldsValidationSchema formFields =
     ObjectSchema [(''customFields'', Nullable (ObjectSchema []))]"

text \<open>\<open>formValues && formValues.countryCode\<close>.\<close>

definition formValues_countryCode :: "AddressFormValues option \<Rightarrow> string option" where
  "formValues_countryCode fv =
     (case fv of
        None \<Rightarrow> None
      | Some v \<Rightarrow> (case fieldValues v ''countryCode'' of Some (JString s) \<Rightarrow> Some s | _ \<Rightarrow> None))"

text \<open>
  \<open>validationSchema\<close> of the Formik wrapper: the schema of \<open>shippingAddress\<close> is lazy,
  a function of the form values.
\<close>

definition validationSchema ::
  "PaymentMethodId \<Rightarrow> (string option \<Rightarrow> FormField list) \<Rightarrow> string option \<Rightarrow>
   AddressFormValues option \<Rightarrow> Schema" where
  "validationSchema ids getFields methodId =
     (if shouldHaveCustomValidation ids methodId
      then (\<lambda>fv. getCustomFormFieldsValidationSchema (getFields (formValues_countryCode fv)))
      else (\<lambda>fv. AddressFormFieldsValidationSchema (getFields (formValues_countryCode fv))))"

section \<open>MultiShippingForm\<close>

record ShippableItemId =
  key :: string
  itemId :: string

record 'i MultiShippingFormState =
  items :: "'i list"
  itemAddingAddress :: "ShippableItemId option"
  createCustomerAddressError :: "Error option"

text \<open>\<open>ConsignmentAssignmentRequestBody\<close>: an address and line items with quantities.\<close>

record ConsignmentAssignmentRequestBody =
  body_address :: Address
  lineItems :: "(string \<times> nat) list"

text \<open>
  The props of the multi-shipping form that the handlers use. The two remote
  operations are given by what they settle to for each argument.
\<close>

record 'd MultiShippingFormProps =
  assignItem :: "ConsignmentAssignmentRequestBody \<Rightarrow> 'd Settled"
  createCustomerAddress :: "Address \<Rightarrow> unit Settled"
  getFields_prop :: "string option \<Rightarrow> FormField list"
  validateAddressFields :: bool

text \<open>
  The functions that the form imports from its neighbours: \<open>isValidAddress\<close>,
  \<open>mapAddressFromFormValues\<close>, \<open>updateShippableItems\<close> (which returns a new item list
  or \<open>undefined\<close>) and the \<open>key\<close> of a \<open>ShippableItem\<close>. The data returned by
  \<open>assignItem\<close> carries the cart and the consignments that \<open>updateShippableItems\<close> reads.
\<close>

record ('i, 'd) MultiShippingImports =
  isValidAddress :: "Address \<Rightarrow> FormField list \<Rightarrow> bool \<Rightarrow> bool"
  mapAddressFromFormValues :: "AddressFormValues \<Rightarrow> Address"
  updateShippableItems :: "'i list \<Rightarrow> int \<times> Address \<Rightarrow> 'd \<Rightarrow> 'i list option"
  item_key :: "'i \<Rightarrow> string"

text \<open>The calls that the form makes to its collaborators.\<close>

datatype Call =
    AssignItem ConsignmentAssignmentRequestBody
  | OnUnhandledError Error
  | CreateCustomerAddress Address

text \<open>\<open>Array.prototype.findIndex\<close>: the first index that satisfies, or \<open>-1\<close>.\<close>

fun findIndex :: "('a \<Rightarrow> bool) \<Rightarrow> 'a list \<Rightarrow> int" where
  "findIndex P [] = -1"
| "findIndex P (x # xs) =
     (if P x then 0 else (let i = findIndex P xs in if i < 0 then -1 else i + 1))"

definition syncItems ::
  "('i, 'd) MultiShippingImports \<Rightarrow> string \<Rightarrow> Address \<Rightarrow> 'd \<Rightarrow> 'i MultiShippingFormState \<Rightarrow>
   'i MultiShippingFormState" where
  "syncItems imports k address d st =
     (let currentItems = items st
      in case updateShippableItems imports currentItems
                (findIndex (\<lambda>item. item_key imports item = k) currentItems, address) d of
           None \<Rightarrow> st
         | Some new_items \<Rightarrow> st\<lparr>items := new_items\<rparr>)"

text \<open>
  \<open>handleSelectAddress\<close>, run to its end: the state it leaves and the calls it made.
\<close>

definition handleSelectAddress ::
  "('i, 'd) MultiShippingImports \<Rightarrow> 'd MultiShippingFormProps \<Rightarrow> Address \<Rightarrow> string \<Rightarrow> string \<Rightarrow>
   'i MultiShippingFormState \<Rightarrow> 'i MultiShippingFormState \<times> Call list" where
  "handleSelectAddress imports props address item_id item_k st =
     (if \<not> isValidAddress imports address (getFields_prop props (countryCode address))
            (validateAddressFields props)
      then (st, [OnUnhandledError AssignItemInvalidAddressError])
      else
        (let body = \<lparr>body_address = address, lineItems = [(item_id, 1)]\<rparr>
         in case assignItem props body of
              Resolved d \<Rightarrow> (syncItems imports item_k address d st, [AssignItem body])
            | Rejected (ThrownError e) \<Rightarrow>
                (st, [AssignItem body, OnUnhandledError (AssignItemFailedError e)])
            | Rejected (ThrownValue v) \<Rightarrow> (st, [AssignItem body])))"

text \<open>\<open>handleSaveAddress\<close>, run to its end.\<close>

definition handleSaveAddress ::
  "('i, 'd) MultiShippingImports \<Rightarrow> 'd MultiShippingFormProps \<Rightarrow> AddressFormValues \<Rightarrow>
   'i MultiShippingFormState \<Rightarrow> 'i MultiShippingFormState \<times> Call list" where
  "handleSaveAddress imports props address st =
     (case itemAddingAddress st of
        None \<Rightarrow> (st, [])
      | Some adding \<Rightarrow>
          (let shipping = mapAddressFromFormValues imports address;
               (st, calls) = handleSelectAddress imports props shipping
                               (itemId adding) (key adding) st;
               st = (case createCustomerAddress props shipping of
                       Resolved u \<Rightarrow> st
                     | Rejected (ThrownError e) \<Rightarrow> st\<lparr>createCustomerAddressError := Some e\<rparr>
                     | Rejected (ThrownValue v) \<Rightarrow> st)
           in (st\<lparr>itemAddingAddress := None\<rparr>, calls @ [CreateCustomerAddress shipping])))"

section \<open>What the specification says of a custom field, and sample inputs\<close>

text \<open>
  The value that the specification gives a custom field, from the field's metadata
  alone: the empty list for a checkbox, the configured default for a dropdown, the
  configured default parsed as a date for a date field, and the empty string
  otherwise. A default is configured when it is defined and not the empty string.
\<close>

definition customFieldTypeDefault :: "FormField \<Rightarrow> JSValue" where
  "customFieldTypeDefault f =
     (if fieldType f = Some ''checkbox'' then JArray []
      else if fieldType f = Some ''dropdown'' \<and> truthy (defaultValue f)
        then JString (case defaultValue f of Some d \<Rightarrow> d | None \<Rightarrow> [])
      else if fieldType f = Some ''date'' \<and> truthy (defaultValue f)
        then JDate (DateOfString (case defaultValue f of Some d \<Rightarrow> d | None \<Rightarrow> []))
      else JString [])"

text \<open>
  Inputs for the sample evaluations. The host prints one fixed text for every number
  and one for every date. The sample address module knows one property, \<open>city\<close>.
\<close>

definition sample_runtime :: JSRuntime where
  "sample_runtime =
     \<lparr>Number_toString = (\<lambda>n. ''a number''), Date_toString = (\<lambda>d. ''a date'')\<rparr>"

definition sample_PaymentMethodId :: PaymentMethodId where
  "sample_PaymentMethodId =
     \<lparr>BraintreeAcceleratedCheckout = ''braintreeacceleratedcheckout'',
      PayPalCommerceAcceleratedCheckout = ''paypalcommerceacceleratedcheckout''\<rparr>"

definition sample_getFields :: "string option \<Rightarrow> FormField list" where
  "sample_getFields cc =
     [\<lparr>name = ''city'', custom = False, fieldType = Some ''text'', defaultValue = None,
       inputType = None\<rparr>]"

definition sample_mapAddressFromFormValues :: "AddressFormValues \<Rightarrow> Address" where
  "sample_mapAddressFromFormValues fv =
     \<lparr>properties = (case fieldValues fv ''city'' of None \<Rightarrow> [] | Some v \<Rightarrow> [(''city'', v)]),
      customFields = Some [],
      shouldSaveAddress = shouldSaveAddressValue fv\<rparr>"

definition sample_isEqualAddress :: "Address \<Rightarrow> Address option \<Rightarrow> bool" where
  "sample_isEqualAddress a b =
     (case b of None \<Rightarrow> False | Some b' \<Rightarrow> properties a = properties b')"

definition city_form :: "string \<Rightarrow> AddressFormValues" where
  "city_form c =
     \<lparr>fieldValues = [''city'' \<mapsto> JString c], customFieldValues = None,
      shouldSaveAddressValue = Some True\<rparr>"

definition city_address :: "string \<Rightarrow> Address" where
  "city_address c =
     \<lparr>properties = [(''city'', JString c)], customFields = Some [],
      shouldSaveAddress = Some True\<rparr>"

text \<open>Props of a valid form in which \<open>typed\<close> is entered while \<open>synced\<close> is the
  city of the shipping address last synced.\<close>

definition city_props :: "string \<Rightarrow> string \<Rightarrow> string SingleShippingFormProps" where
  "city_props typed synced =
     \<lparr>isLoading = False, isValid = True, consignments = [],
      shippingAddress = Some (city_address synced),
      formValues = \<lparr>billingSameAsShipping = True,
                     shippingAddressValues = Some (city_form typed),
                     orderComment = []\<rparr>\<rparr>"

text \<open>
  A multi-shipping form whose items are pairs of a key and the address assigned, if
  any; \<open>assignItem\<close> resolves to the new item list, and saving a customer address
  fails.
\<close>

definition sample_imports ::
  "(string \<times> Address option, (string \<times> Address option) list) MultiShippingImports" where
  "sample_imports =
     \<lparr>isValidAddress =
        (\<lambda>a fs v. case map_of (properties a) ''city'' of
                     Some (JString s) \<Rightarrow> s \<noteq> []
                   | _ \<Rightarrow> False),
      mapAddressFromFormValues = sample_mapAddressFromFormValues,
      updateShippableItems = (\<lambda>current (i, a) d. Some d),
      item_key = fst\<rparr>"

definition sample_props :: "(string \<times> Address option) list MultiShippingFormProps" where
  "sample_props =
     \<lparr>assignItem = (\<lambda>body. Resolved [(''slot-1'', Some (body_address body))]),
      createCustomerAddress = (\<lambda>a. Rejected (ThrownError (RequestError ''save failed''))),
      getFields_prop = sample_getFields,
      validateAddressFields = True\<rparr>"

definition sample_state :: "(string \<times> Address option) MultiShippingFormState" where
  "sample_state =
     \<lparr>items = [(''slot-1'', None)],
      itemAddingAddress = Some \<lparr>key = ''slot-1'', itemId = ''42''\<rparr>,
      createCustomerAddressError = None\<rparr>"

section \<open>Properties of mapAddressToFormValues\<close>

subsection \<open>Custom fields\<close>

lemma reduceField_custom:
  "custom f \<Longrightarrow>
   reduceField rt address acc f =
     acc\<lparr>customFieldValues :=
       Some ((case customFieldValues acc of None \<Rightarrow> Map.empty | Some m \<Rightarrow> m)
               (name f \<mapsto> customFieldTypeDefault f))\<rparr>"
  by (simp add: reduceField_def customFieldTypeDefault_def getDefaultValue_def
      DynamicFormFieldType_checkbox_def DynamicFormFieldType_date_def
      DynamicFormFieldType_dropdown_def Let_def)

lemma reduceField_not_custom:
  "\<not> custom f \<Longrightarrow> customFieldValues (reduceField rt address acc f) = customFieldValues acc"
  by (simp add: reduceField_def)

lemma foldl_reduceField_custom:
  "customFieldValues (foldl (reduceField rt address) acc fs) =
     (if filter custom fs = [] then customFieldValues acc
      else Some ((case customFieldValues acc of None \<Rightarrow> Map.empty | Some m \<Rightarrow> m)
                   ++ map_of (rev (map (\<lambda>f. (name f, customFieldTypeDefault f))
                                    (filter custom fs)))))"
proof (induction fs arbitrary: acc)
  case Nil
  show ?case by simp
next
  case (Cons f fs)
  show ?case
  proof (cases "custom f")
    case True
    then show ?thesis
      by (simp add: Cons.IH reduceField_custom map_add_def fun_eq_iff split: option.splits)
  next
    case False
    then show ?thesis
      by (simp add: Cons.IH reduceField_not_custom)
  qed
qed

lemma customFieldValues_mapAddressToFormValues:
  "customFieldValues (mapAddressToFormValues rt formFields address) =
     (if filter custom formFields = [] then None
      else Some (map_of (rev (map (\<lambda>f. (name f, customFieldTypeDefault f))
                               (filter custom formFields)))))"
  by (simp add: mapAddressToFormValues_def Let_def foldl_reduceField_custom)

lemma map_of_rev_last:
  "\<forall>g\<in>set post. fst g \<noteq> k \<Longrightarrow> map_of (rev (pre @ (k, v) # post)) k = Some v"
  by (induction post) (auto simp: map_add_def split: option.splits)

lemma custom_lookup:
  assumes "custom f" and "\<forall>g\<in>set post. custom g \<longrightarrow> name g \<noteq> name f"
  shows "\<exists>m. customFieldValues (mapAddressToFormValues rt (pre @ f # post) address) = Some m
             \<and> m (name f) = Some (customFieldTypeDefault f)"
proof -
  have "map_of (rev (map (\<lambda>f. (name f, customFieldTypeDefault f)) (filter custom pre)
                     @ (name f, customFieldTypeDefault f)
                       # map (\<lambda>f. (name f, customFieldTypeDefault f)) (filter custom post)))
          (name f) = Some (customFieldTypeDefault f)"
    by (rule map_of_rev_last) (use assms(2) in auto)
  then show ?thesis
    using assms(1) by (simp add: customFieldValues_mapAddressToFormValues)
qed

text \<open>
  C1. For every field list and every address, defined or not and whatever its
  \<open>customFields\<close> hold, the \<open>customFields\<close> object of the mapped form values is made
  from the field list alone: there is none when the list has no custom field, and
  otherwise each custom field's name is bound to the type default of the last custom
  field of that name: the empty list for a checkbox, the configured default for a
  dropdown, the configured default parsed as a date for a date field, and the empty
  string in every other case. The address does not occur on the right-hand side.
\<close>

theorem mapAddressToFormValues_resets_custom_fields:
  "customFieldValues (mapAddressToFormValues rt formFields address) =
     (if filter custom formFields = [] then None
      else Some (map_of (rev (map (\<lambda>f. (name f, customFieldTypeDefault f))
                               (filter custom formFields)))))"
  by (rule customFieldValues_mapAddressToFormValues)

subsection \<open>System fields\<close>

lemma fieldValues_reduceField:
  "fieldValues (reduceField rt address acc f) k = Some v \<Longrightarrow>
   fieldValues acc k = Some v \<or> (\<exists>s. v = JString s)"
  by (auto simp: reduceField_def Let_def split: if_splits)

lemma fieldValues_foldl_strings:
  "(\<And>k v. fieldValues acc k = Some v \<Longrightarrow> \<exists>s. v = JString s) \<Longrightarrow>
   fieldValues (foldl (reduceField rt address) acc fs) k = Some v \<Longrightarrow> \<exists>s. v = JString s"
proof (induction fs arbitrary: acc k v)
  case Nil
  then show ?case by simp
next
  case (Cons f fs)
  have "\<And>k v. fieldValues (reduceField rt address acc f) k = Some v \<Longrightarrow> \<exists>s. v = JString s"
    using Cons.prems(1) fieldValues_reduceField by blast
  then show ?case
    using Cons.IH [of "reduceField rt address acc f" k v] Cons.prems(2) by simp
qed

lemma backfill_strings:
  "backfill k0 m k = Some v \<Longrightarrow> m k = Some v \<or> v = JString []"
  by (auto simp: backfill_def split: option.splits if_splits)

lemma fieldValues_strings:
  assumes "fieldValues (mapAddressToFormValues rt formFields address) k = Some v"
  shows "\<exists>s. v = JString s"
proof -
  let ?init = "\<lparr>fieldValues = Map.empty, customFieldValues = None,
                shouldSaveAddressValue = None\<rparr>"
  let ?acc = "foldl (reduceField rt address) ?init formFields"
  from assms
  have "backfill ''stateOrProvinceCode'' (backfill ''stateOrProvince'' (fieldValues ?acc)) k
          = Some v"
    by (simp add: mapAddressToFormValues_def Let_def)
  then have "fieldValues ?acc k = Some v \<or> v = JString []"
    using backfill_strings by blast
  moreover have "fieldValues ?acc k = Some v \<Longrightarrow> \<exists>s. v = JString s"
    by (rule fieldValues_foldl_strings [where acc = ?init]) simp_all
  ultimately show ?thesis by blast
qed

lemma reduceField_fieldValues_other:
  "custom f \<or> name f \<noteq> k \<Longrightarrow> fieldValues (reduceField rt address acc f) k = fieldValues acc k"
  by (auto simp: reduceField_def Let_def)

lemma reduceField_fieldValues_same:
  "\<not> custom f \<Longrightarrow> isSystemAddressFieldName (name f) \<Longrightarrow>
   fieldValues (reduceField rt address acc f) (name f) =
     Some (JString (toString_or_empty rt
        (getValue (fieldType f) (address_property address (name f)) (defaultValue f))))"
  by (simp add: reduceField_def)

lemma reduceField_keeps_defined:
  "fieldValues acc k \<noteq> None \<Longrightarrow> fieldValues (reduceField rt address acc f) k \<noteq> None"
  by (simp add: reduceField_def Let_def)

lemma foldl_keeps_defined:
  "fieldValues acc k \<noteq> None \<Longrightarrow> fieldValues (foldl (reduceField rt address) acc fs) k \<noteq> None"
proof (induction fs arbitrary: acc)
  case Nil
  then show ?case by simp
next
  case (Cons g fs)
  have "fieldValues (reduceField rt address acc g) k \<noteq> None"
    using Cons.prems by (rule reduceField_keeps_defined)
  then have "fieldValues (foldl (reduceField rt address) (reduceField rt address acc g) fs) k
               \<noteq> None"
    by (rule Cons.IH)
  then show ?case by simp
qed

lemma foldl_defines_system_fields:
  "f \<in> set fs \<Longrightarrow> \<not> custom f \<Longrightarrow> isSystemAddressFieldName (name f) \<Longrightarrow>
   fieldValues (foldl (reduceField rt address) acc fs) (name f) \<noteq> None"
proof (induction fs arbitrary: acc)
  case Nil
  then show ?case by simp
next
  case (Cons g fs)
  show ?case
  proof (cases "g = f")
    case True
    have "fieldValues (reduceField rt address acc f) (name f) \<noteq> None"
      using Cons.prems(2,3) by (simp add: reduceField_fieldValues_same)
    then show ?thesis
      using True by (simp add: foldl_keeps_defined)
  next
    case False
    then have "f \<in> set fs" using Cons.prems(1) by simp
    then show ?thesis
      using Cons.IH Cons.prems(2,3) by simp
  qed
qed

lemma backfill_keeps_defined: "m k \<noteq> None \<Longrightarrow> backfill k0 m k \<noteq> None"
  by (simp add: backfill_def split: option.splits)

lemma system_fields_defined:
  assumes "f \<in> set formFields" and "\<not> custom f" and "isSystemAddressFieldName (name f)"
  shows "\<exists>s. fieldValues (mapAddressToFormValues rt formFields address) (name f)
               = Some (JString s)"
proof -
  have "fieldValues (mapAddressToFormValues rt formFields address) (name f) \<noteq> None"
    using foldl_defines_system_fields [OF assms]
    by (simp add: mapAddressToFormValues_def Let_def backfill_keeps_defined)
  then obtain v
    where "fieldValues (mapAddressToFormValues rt formFields address) (name f) = Some v"
    by blast
  then show ?thesis
    using fieldValues_strings by blast
qed

text \<open>
  C10. For every field list and every address, every top-level property of the mapped
  form values other than \<open>customFields\<close> and \<open>shouldSaveAddress\<close> holds a string, and
  every non-custom field of the list with a system field name has such a property:
  whatever \<open>getValue\<close> returns (a string, a number, an array, a \<open>Date\<close> or
  \<open>undefined\<close>) goes through \<open>toString\<close> with the empty string as fallback. A custom
  date field with a configured default, not followed by a custom field of the same
  name, does hold a \<open>Date\<close> object.
\<close>

theorem system_field_values_are_strings:
  "(\<forall>k v. fieldValues (mapAddressToFormValues rt formFields address) k = Some v
           \<longrightarrow> (\<exists>s. v = JString s))
   \<and> (\<forall>f\<in>set formFields. \<not> custom f \<and> isSystemAddressFieldName (name f)
         \<longrightarrow> (\<exists>s. fieldValues (mapAddressToFormValues rt formFields address) (name f)
                    = Some (JString s)))
   \<and> (\<forall>pre (f::FormField) (post::FormField list) d.
         custom f \<and> fieldType f = Some ''date'' \<and> defaultValue f = Some d \<and> d \<noteq> []
         \<and> (\<forall>g\<in>set post. custom g \<longrightarrow> name g \<noteq> name f)
         \<longrightarrow> (\<exists>m. customFieldValues (mapAddressToFormValues rt (pre @ f # post) address) = Some m
                  \<and> m (name f) = Some (JDate (DateOfString d))))"
proof (intro conjI allI impI ballI)
  fix k v
  assume "fieldValues (mapAddressToFormValues rt formFields address) k = Some v"
  then show "\<exists>s. v = JString s" by (rule fieldValues_strings)
next
  fix f
  assume "f \<in> set formFields" and "\<not> custom f \<and> isSystemAddressFieldName (name f)"
  then show "\<exists>s. fieldValues (mapAddressToFormValues rt formFields address) (name f)
                   = Some (JString s)"
    by (simp add: system_fields_defined)
next
  fix pre post :: "FormField list" and f :: FormField and d
  assume a: "custom f \<and> fieldType f = Some ''date'' \<and> defaultValue f = Some d \<and> d \<noteq> []
         \<and> (\<forall>g\<in>set post. custom g \<longrightarrow> name g \<noteq> name f)"
  then have "customFieldTypeDefault f = JDate (DateOfString d)"
    by (simp add: customFieldTypeDefault_def)
  then show "\<exists>m. customFieldValues (mapAddressToFormValues rt (pre @ f # post) address) = Some m
                  \<and> m (name f) = Some (JDate (DateOfString d))"
    using custom_lookup [of f post rt pre address] a by simp
qed

text \<open>
  A date-typed system field whose address value is \<open>1990-05-17\<close> is mapped to the text
  that the host prints for the date, and the custom date field beside it, with the
  default \<open>2024-02-01\<close>, to the \<open>Date\<close> object of that default.
\<close>

theorem system_field_values_are_strings_witness:
  "fieldValues
     (mapAddressToFormValues sample_runtime
        [\<lparr>name = ''birthday'', custom = False, fieldType = Some ''date'', defaultValue = None,
          inputType = None\<rparr>,
         \<lparr>name = ''delivery'', custom = True, fieldType = Some ''date'',
          defaultValue = Some ''2024-02-01'', inputType = None\<rparr>]
        (Some \<lparr>properties = [(''birthday'', JString ''1990-05-17'')], customFields = Some [],
               shouldSaveAddress = None\<rparr>))
     ''birthday'' = Some (JString ''a date'')
   \<and> (\<exists>s. JString ''a date'' = JString s)
   \<and> (\<exists>m. customFieldValues
         (mapAddressToFormValues sample_runtime
            ([\<lparr>name = ''birthday'', custom = False, fieldType = Some ''date'', defaultValue = None,
               inputType = None\<rparr>]
             @ \<lparr>name = ''delivery'', custom = True, fieldType = Some ''date'',
                defaultValue = Some ''2024-02-01'', inputType = None\<rparr> # [])
            (Some \<lparr>properties = [(''birthday'', JString ''1990-05-17'')], customFields = Some [],
                   shouldSaveAddress = None\<rparr>)) = Some m
        \<and> m ''delivery'' = Some (JDate (DateOfString ''2024-02-01'')))"
proof -
  let ?sys = "\<lparr>name = ''birthday'', custom = False, fieldType = Some ''date'',
               defaultValue = None, inputType = None\<rparr>"
  let ?cus = "\<lparr>name = ''delivery'', custom = True, fieldType = Some ''date'',
               defaultValue = Some ''2024-02-01'', inputType = None\<rparr>"
  let ?a = "Some \<lparr>properties = [(''birthday'', JString ''1990-05-17'')], customFields = Some [],
               shouldSaveAddress = None\<rparr>"
  have h1: "fieldValues (mapAddressToFormValues sample_runtime [?sys, ?cus] ?a) ''birthday''
              = Some (JString ''a date'')"
    by (simp add: mapAddressToFormValues_def reduceField_def Let_def backfill_def
      isSystemAddressFieldName_def address_property_def toString_or_empty_def
      getDefaultValue_def DynamicFormFieldType_checkbox_def DynamicFormFieldType_date_def
      DynamicFormFieldType_dropdown_def sample_runtime_def)
  have h2: "custom ?cus \<and> fieldType ?cus = Some ''date'' \<and> defaultValue ?cus = Some ''2024-02-01''
            \<and> ''2024-02-01'' \<noteq> [] \<and> (\<forall>g\<in>set []. custom g \<longrightarrow> name g \<noteq> name ?cus)"
    by simp
  from system_field_values_are_strings [of sample_runtime "[?sys, ?cus]" ?a]
  have "\<exists>s. JString ''a date'' = JString s"
    using h1 by blast
  moreover
  from system_field_values_are_strings [of sample_runtime "[?sys, ?cus]" ?a] h2
  have "\<exists>m. customFieldValues (mapAddressToFormValues sample_runtime ([?sys] @ ?cus # []) ?a)
               = Some m
        \<and> m (name ?cus) = Some (JDate (DateOfString ''2024-02-01''))"
    by blast
  ultimately show ?thesis using h1 by simp
qed

subsection \<open>The state fields\<close>

lemma backfilled_lookup:
  "k = ''stateOrProvince'' \<or> k = ''stateOrProvinceCode'' \<Longrightarrow>
   fieldValues (mapAddressToFormValues rt formFields address) k =
     (case fieldValues (foldl (reduceField rt address)
             \<lparr>fieldValues = Map.empty, customFieldValues = None,
              shouldSaveAddressValue = None\<rparr> formFields) k of
        None \<Rightarrow> Some (JString [])
      | Some v \<Rightarrow> Some v)"
  by (auto simp: mapAddressToFormValues_def Let_def backfill_def split: option.splits)

lemma toString_or_empty_default:
  "\<not> truthy dv \<Longrightarrow> toString_or_empty rt (getValue ft None dv) = []"
  by (cases dv) (auto simp: toString_or_empty_def getDefaultValue_def)

lemma reduceField_no_default:
  assumes "address_property address k = None"
    and "\<not> custom f \<and> name f = k \<longrightarrow> \<not> truthy (defaultValue f)"
    and "fieldValues acc k = None \<or> fieldValues acc k = Some (JString [])"
    and "isSystemAddressFieldName k"
  shows "fieldValues (reduceField rt address acc f) k = None
         \<or> fieldValues (reduceField rt address acc f) k = Some (JString [])"
proof (cases "custom f \<or> name f \<noteq> k")
  case True
  then show ?thesis using assms(3) by (simp add: reduceField_fieldValues_other)
next
  case False
  then have f: "\<not> custom f" "name f = k" by auto
  with assms(2) have "\<not> truthy (defaultValue f)" by simp
  then have "toString_or_empty rt (getValue (fieldType f) None (defaultValue f)) = []"
    by (rule toString_or_empty_default)
  then show ?thesis
    using f assms(1,4) reduceField_fieldValues_same [of f rt address acc] by simp
qed

lemma foldl_no_default:
  assumes "address_property address k = None"
    and "isSystemAddressFieldName k"
    and "\<forall>f\<in>set fs. \<not> custom f \<and> name f = k \<longrightarrow> \<not> truthy (defaultValue f)"
    and "fieldValues acc k = None \<or> fieldValues acc k = Some (JString [])"
  shows "fieldValues (foldl (reduceField rt address) acc fs) k = None
         \<or> fieldValues (foldl (reduceField rt address) acc fs) k = Some (JString [])"
  using assms(3,4)
proof (induction fs arbitrary: acc)
  case Nil
  then show ?case by simp
next
  case (Cons f fs)
  have "fieldValues (reduceField rt address acc f) k = None
         \<or> fieldValues (reduceField rt address acc f) k = Some (JString [])"
    using assms(1) _ Cons.prems(2) assms(2)
    by (rule reduceField_no_default) (use Cons.prems(1) in simp)
  moreover have "\<forall>f\<in>set fs. \<not> custom f \<and> name f = k \<longrightarrow> \<not> truthy (defaultValue f)"
    using Cons.prems(1) by simp
  ultimately show ?case
    using Cons.IH [of "reduceField rt address acc f"] by simp
qed

lemma state_names_system:
  "k = ''stateOrProvince'' \<or> k = ''stateOrProvinceCode'' \<Longrightarrow> isSystemAddressFieldName k"
  by (auto simp: isSystemAddressFieldName_def)

text \<open>
  C9, as amended. For every field list and every address in which \<open>stateOrProvince\<close>
  (or \<open>stateOrProvinceCode\<close>) is undefined, the undefined address included, the mapped
  form values hold a string under that name, never \<open>undefined\<close>; the string is empty
  whenever no non-custom field of that name in the list has a non-empty configured
  default.
\<close>

theorem state_fields_backfilled:
  assumes "k = ''stateOrProvince'' \<or> k = ''stateOrProvinceCode''"
    and "address_property address k = None"
  shows "(\<exists>s. fieldValues (mapAddressToFormValues rt formFields address) k = Some (JString s))
     \<and> ((\<forall>f\<in>set formFields. \<not> custom f \<and> name f = k \<longrightarrow> \<not> truthy (defaultValue f))
          \<longrightarrow> fieldValues (mapAddressToFormValues rt formFields address) k = Some (JString []))"
proof (intro conjI impI)
  let ?acc = "foldl (reduceField rt address)
     \<lparr>fieldValues = Map.empty, customFieldValues = None, shouldSaveAddressValue = None\<rparr>
     formFields"
  have eq: "fieldValues (mapAddressToFormValues rt formFields address) k =
     (case fieldValues ?acc k of None \<Rightarrow> Some (JString []) | Some v \<Rightarrow> Some v)"
    using assms(1) by (rule backfilled_lookup)
  then obtain v where v: "fieldValues (mapAddressToFormValues rt formFields address) k = Some v"
    by (cases "fieldValues ?acc k") auto
  then show "\<exists>s. fieldValues (mapAddressToFormValues rt formFields address) k = Some (JString s)"
    using fieldValues_strings by blast
  assume "\<forall>f\<in>set formFields. \<not> custom f \<and> name f = k \<longrightarrow> \<not> truthy (defaultValue f)"
  then have "fieldValues ?acc k = None \<or> fieldValues ?acc k = Some (JString [])"
    using assms(2) state_names_system [OF assms(1)] by (intro foldl_no_default) simp_all
  then show "fieldValues (mapAddressToFormValues rt formFields address) k = Some (JString [])"
    using eq by auto
qed

text \<open>An address with a city and no state, and a state field with no default.\<close>

theorem state_fields_backfilled_witness:
  "address_property
     (Some \<lparr>properties = [(''city'', JString ''Austin'')], customFields = Some [],
            shouldSaveAddress = None\<rparr>) ''stateOrProvince'' = None
   \<and> fieldValues
     (mapAddressToFormValues sample_runtime
        [\<lparr>name = ''city'', custom = False, fieldType = Some ''text'', defaultValue = None,
          inputType = None\<rparr>,
         \<lparr>name = ''stateOrProvince'', custom = False, fieldType = Some ''text'',
          defaultValue = None, inputType = None\<rparr>]
        (Some \<lparr>properties = [(''city'', JString ''Austin'')], customFields = Some [],
               shouldSaveAddress = None\<rparr>))
     ''stateOrProvince'' = Some (JString [])"
proof -
  let ?fs = "[\<lparr>name = ''city'', custom = False, fieldType = Some ''text'', defaultValue = None,
          inputType = None\<rparr>,
         \<lparr>name = ''stateOrProvince'', custom = False, fieldType = Some ''text'',
          defaultValue = None, inputType = None\<rparr>]"
  let ?a = "Some \<lparr>properties = [(''city'', JString ''Austin'')], customFields = Some [],
               shouldSaveAddress = None\<rparr>"
  have h1: "''stateOrProvince'' = ''stateOrProvince''
            \<or> ''stateOrProvince'' = ''stateOrProvinceCode''"
    by simp
  have h2: "address_property ?a ''stateOrProvince'' = None"
    by (simp add: address_property_def)
  have h3: "\<forall>f\<in>set ?fs. \<not> custom f \<and> name f = ''stateOrProvince''
              \<longrightarrow> \<not> truthy (defaultValue f)"
    by simp
  from state_fields_backfilled [OF h1 h2, of sample_runtime ?fs] h3
  have "fieldValues (mapAddressToFormValues sample_runtime ?fs ?a) ''stateOrProvince''
          = Some (JString [])"
    by blast
  then show ?thesis using h2 by simp
qed

text \<open>
  The claim as first stated fails where the state field has a default: with no
  address at all, the field is mapped to the default, not to the empty string.
\<close>

theorem state_field_default_counterexample:
  "address_property None ''stateOrProvince'' = None
   \<and> fieldValues
       (mapAddressToFormValues sample_runtime
          [\<lparr>name = ''stateOrProvince'', custom = False, fieldType = Some ''text'',
            defaultValue = Some ''TX'', inputType = None\<rparr>]
          None)
       ''stateOrProvince'' = Some (JString ''TX'')
   \<and> JString ''TX'' \<noteq> JString []"
  by (simp add: mapAddressToFormValues_def reduceField_def Let_def backfill_def
      isSystemAddressFieldName_def address_property_def toString_or_empty_def
      getDefaultValue_def DynamicFormFieldType_checkbox_def DynamicFormFieldType_date_def
      DynamicFormFieldType_dropdown_def sample_runtime_def)

section \<open>Properties of the validation schema\<close>

text \<open>
  C2, as amended. The schema of \<open>shippingAddress\<close> is a function of the payment-method
  identifier, the field lookup and the form values. For every identifier that is
  defined, not empty and outside the fixed exclusion set, the custom-field schema is
  chosen, and that schema is the same relaxed object schema for every field list. For
  every identifier in the exclusion set, and for an undefined or empty identifier,
  the address-form-fields schema of the country's field list is chosen.
\<close>

theorem validationSchema_selection:
  "validationSchema ids getFields methodId fv =
     (if \<exists>m. methodId = Some m \<and> m \<noteq> [] \<and> m \<noteq> BraintreeAcceleratedCheckout ids
              \<and> m \<noteq> PayPalCommerceAcceleratedCheckout ids
      then ObjectSchema [(''customFields'', Nullable (ObjectSchema []))]
      else AddressFormFieldsValidationSchema (getFields (formValues_countryCode fv)))"
  by (cases methodId)
     (auto simp: validationSchema_def shouldHaveCustomValidation_def
        getCustomFormFieldsValidationSchema_def Let_def)

text \<open>
  The claim as first stated has the two branches the other way round: a method of the
  exclusion set gets the address-form-fields schema, not the relaxed one, and a method
  outside it gets the relaxed one.
\<close>

theorem validationSchema_selection_counterexample:
  "validationSchema sample_PaymentMethodId sample_getFields
     (Some ''braintreeacceleratedcheckout'') None
     = AddressFormFieldsValidationSchema (sample_getFields None)
   \<and> validationSchema sample_PaymentMethodId sample_getFields
     (Some ''braintreeacceleratedcheckout'') None
     \<noteq> getCustomFormFieldsValidationSchema (sample_getFields None)
   \<and> validationSchema sample_PaymentMethodId sample_getFields (Some ''affirm'') None
     = getCustomFormFieldsValidationSchema (sample_getFields None)
   \<and> validationSchema sample_PaymentMethodId sample_getFields (Some ''affirm'') None
     \<noteq> AddressFormFieldsValidationSchema (sample_getFields None)"
  by (simp add: validationSchema_def shouldHaveCustomValidation_def sample_PaymentMethodId_def
      getCustomFormFieldsValidationSchema_def formValues_countryCode_def Let_def)

section \<open>Properties of SingleShippingForm\<close>

subsection \<open>Skipping the update of an unchanged address\<close>

text \<open>
  C4. When the form values yield no address, or the address they yield is equal (by
  \<open>isEqualAddress\<close>) to the shipping address last synced, \<open>updateAddressWithFormData\<close>
  leaves the form as it was: no call is handed to the debounced function, no remote
  call is recorded and \<open>isUpdatingShippingData\<close> is not set. The same holds of the
  field-change handler as a whole.
\<close>

theorem updateAddressWithFormData_skips_equal_address:
  assumes "shippingAddressValues (formValues props) = None
           \<or> (\<exists>f. shippingAddressValues (formValues props) = Some f
                  \<and> isEqualAddress (mapFrom f) (shippingAddress props))"
  shows "updateAddressWithFormData mapFrom isEqualAddress now includeShippingOptions props form
           = form
         \<and> handleFieldChange shippingFields mapFrom isEqualAddress now fieldName props form
           = form"
  using assms
  by (auto simp: updateAddressWithFormData_def handleFieldChange_def Let_def)

text \<open>A freshly made form, where \<open>Austin\<close> is typed and \<open>Austin\<close> is synced.\<close>

theorem updateAddressWithFormData_skips_equal_address_witness:
  "updateAddressWithFormData sample_mapAddressFromFormValues sample_isEqualAddress 500 True
     (city_props ''Austin'' ''Austin'') (constructor None) = constructor None
   \<and> handleFieldChange [''city''] sample_mapAddressFromFormValues sample_isEqualAddress 500
       ''city'' (city_props ''Austin'' ''Austin'') (constructor None) = constructor None"
proof -
  have "\<exists>f. shippingAddressValues (formValues (city_props ''Austin'' ''Austin'')) = Some f
            \<and> sample_isEqualAddress (sample_mapAddressFromFormValues f)
                (shippingAddress (city_props ''Austin'' ''Austin''))"
    by (simp add: city_props_def city_form_def city_address_def sample_isEqualAddress_def
      sample_mapAddressFromFormValues_def)
  then have "shippingAddressValues (formValues (city_props ''Austin'' ''Austin'')) = None
           \<or> (\<exists>f. shippingAddressValues (formValues (city_props ''Austin'' ''Austin'')) = Some f
            \<and> sample_isEqualAddress (sample_mapAddressFromFormValues f)
                (shippingAddress (city_props ''Austin'' ''Austin'')))"
    by (rule disjI2)
  then show ?thesis
    by (rule updateAddressWithFormData_skips_equal_address)
qed

subsection \<open>Loading flags\<close>

text \<open>
  C7. \<open>handleAddressSelect\<close> and \<open>onUseNewAddress\<close> set \<open>isResettingAddress\<close> when they
  start, and whatever the remote operation settles to, resolved or rejected, and
  whatever happened to the form in between, the flag is false once the handler has
  run its \<open>finally\<close> block. In the same way \<open>isUpdatingShippingData\<close> is false once
  the debounced update call has settled.
\<close>

theorem loading_flags_cleared:
  "isResettingAddress (state (handleAddressSelect_begin address form))
   \<and> \<not> isResettingAddress
         (state (handleAddressSelect_settled rt getFields address captured outcome form1))
   \<and> isResettingAddress (state (onUseNewAddress_begin form))
   \<and> \<not> isResettingAddress
         (state (onUseNewAddress_settled rt getFields captured outcome2 form2))
   \<and> \<not> isUpdatingShippingData
         (state (fst (debouncedUpdateAddress_settled includeShippingOptions outcome3 form3)))"
  by (simp add: handleAddressSelect_begin_def handleAddressSelect_settled_def
      onUseNewAddress_begin_def onUseNewAddress_settled_def
      debouncedUpdateAddress_settled_def Let_def split: Settled.splits)

subsection \<open>Two edits within the debounce window\<close>









section \<open>Properties of MultiShippingForm\<close>

text \<open>
  C5. For every address that \<open>isValidAddress\<close> rejects for the fields of its country,
  \<open>handleSelectAddress\<close> makes one call, to the unhandled-error callback with an
  \<open>AssignItemInvalidAddressError\<close>; it does not call \<open>assignItem\<close>, and it leaves the
  state, the item list included, as it was.
\<close>

theorem handleSelectAddress_invalid_address:
  assumes "\<not> isValidAddress imports address (getFields_prop props (countryCode address))
               (validateAddressFields props)"
  shows "handleSelectAddress imports props address item_id item_k st
           = (st, [OnUnhandledError AssignItemInvalidAddressError])"
  using assms by (simp add: handleSelectAddress_def)

text \<open>An address with no city, which the sample \<open>isValidAddress\<close> rejects.\<close>

theorem handleSelectAddress_invalid_address_witness:
  "handleSelectAddress sample_imports sample_props
     \<lparr>properties = [], customFields = Some [], shouldSaveAddress = None\<rparr> ''42'' ''slot-1''
     sample_state
   = (sample_state, [OnUnhandledError AssignItemInvalidAddressError])"
proof -
  have "\<not> isValidAddress sample_imports
            \<lparr>properties = [], customFields = Some [], shouldSaveAddress = None\<rparr>
            (getFields_prop sample_props
               (countryCode \<lparr>properties = [], customFields = Some [], shouldSaveAddress = None\<rparr>))
            (validateAddressFields sample_props)"
    by (simp add: sample_imports_def)
  then show ?thesis
    by (rule handleSelectAddress_invalid_address)
qed

text \<open>
  C6. In \<open>handleSaveAddress\<close>, when an item is waiting for its new address, the mapped
  address is valid, \<open>assignItem\<close> resolves and \<open>createCustomerAddress\<close> then throws, the
  item list is the one that the assignment left (the list reconciled by \<open>syncItems\<close>),
  the unhandled-error callback is not called, and the one error state touched is
  \<open>createCustomerAddressError\<close>: it holds the thrown error when that is an instance of
  \<open>Error\<close> and is left alone when something else was thrown. The dialog's item is
  cleared.
\<close>

theorem handleSaveAddress_keeps_assignment:
  assumes adding: "itemAddingAddress st = Some adding"
    and valid: "isValidAddress imports (mapAddressFromFormValues imports address)
              (getFields_prop props (countryCode (mapAddressFromFormValues imports address)))
              (validateAddressFields props)"
    and assigned: "assignItem props
              \<lparr>body_address = mapAddressFromFormValues imports address,
               lineItems = [(itemId adding, 1)]\<rparr> = Resolved d"
    and rejected: "createCustomerAddress props (mapAddressFromFormValues imports address)
              = Rejected t"
  shows "items (fst (handleSaveAddress imports props address st))
           = items (syncItems imports (key adding) (mapAddressFromFormValues imports address) d st)
       \<and> items (fst (handleSaveAddress imports props address st))
           = items (fst (handleSelectAddress imports props
                (mapAddressFromFormValues imports address) (itemId adding) (key adding) st))
       \<and> createCustomerAddressError (fst (handleSaveAddress imports props address st))
           = (case t of
                ThrownError e \<Rightarrow> Some e
              | ThrownValue v \<Rightarrow> createCustomerAddressError st)
       \<and> itemAddingAddress (fst (handleSaveAddress imports props address st)) = None
       \<and> snd (handleSaveAddress imports props address st)
           = [AssignItem \<lparr>body_address = mapAddressFromFormValues imports address,
                          lineItems = [(itemId adding, 1)]\<rparr>,
              CreateCustomerAddress (mapAddressFromFormValues imports address)]"
proof -
  let ?shipping = "mapAddressFromFormValues imports address"
  let ?body = "\<lparr>body_address = ?shipping, lineItems = [(itemId adding, 1)]\<rparr>"
  have sel: "handleSelectAddress imports props ?shipping (itemId adding) (key adding) st
               = (syncItems imports (key adding) ?shipping d st, [AssignItem ?body])"
    using valid assigned by (simp add: handleSelectAddress_def Let_def)
  have err: "createCustomerAddressError (syncItems imports (key adding) ?shipping d st)
               = createCustomerAddressError st"
    by (simp add: syncItems_def Let_def split: option.splits)
  show ?thesis
    using adding rejected
    by (cases t) (simp_all add: handleSaveAddress_def sel err Let_def)
qed

text \<open>
  Item \<open>42\<close> in slot \<open>slot-1\<close> gets the address typed in the dialog, saving the address
  fails, and the slot keeps the address.
\<close>

theorem handleSaveAddress_keeps_assignment_witness:
  "items (fst (handleSaveAddress sample_imports sample_props (city_form ''Austin'') sample_state))
     = [(''slot-1'', Some (sample_mapAddressFromFormValues (city_form ''Austin'')))]
   \<and> createCustomerAddressError
       (fst (handleSaveAddress sample_imports sample_props (city_form ''Austin'') sample_state))
     = Some (RequestError ''save failed'')
   \<and> snd (handleSaveAddress sample_imports sample_props (city_form ''Austin'') sample_state)
     = [AssignItem \<lparr>body_address = sample_mapAddressFromFormValues (city_form ''Austin''),
                    lineItems = [(''42'', 1)]\<rparr>,
        CreateCustomerAddress (sample_mapAddressFromFormValues (city_form ''Austin''))]"
proof -
  let ?adding = "\<lparr>key = ''slot-1'', itemId = ''42''\<rparr>"
  let ?shipping = "mapAddressFromFormValues sample_imports (city_form ''Austin'')"
  have ship: "?shipping = sample_mapAddressFromFormValues (city_form ''Austin'')"
    by (simp add: sample_imports_def)
  have h1: "itemAddingAddress sample_state = Some ?adding"
    by (simp add: sample_state_def)
  have h2: "isValidAddress sample_imports ?shipping
              (getFields_prop sample_props (countryCode ?shipping))
              (validateAddressFields sample_props)"
    by (simp add: sample_imports_def sample_mapAddressFromFormValues_def city_form_def)
  have h3: "assignItem sample_props
              \<lparr>body_address = ?shipping, lineItems = [(itemId ?adding, 1)]\<rparr>
              = Resolved [(''slot-1'', Some ?shipping)]"
    by (simp add: sample_props_def)
  have h4: "createCustomerAddress sample_props ?shipping
              = Rejected (ThrownError (RequestError ''save failed''))"
    by (simp add: sample_props_def)
  have sync: "items (syncItems sample_imports (key ?adding) ?shipping
                 [(''slot-1'', Some ?shipping)] sample_state)
              = [(''slot-1'', Some ?shipping)]"
    by (simp add: syncItems_def sample_imports_def Let_def)
  from handleSaveAddress_keeps_assignment [OF h1 h2 h3 h4] sync
  show ?thesis
    by (simp add: ship)
qed

end
